theory Spec2Isabelle
  imports Complex_Main
begin

section \<open>JavaScript values\<close>

text \<open>
  JavaScript numbers are modelled by the reals, together with the two non-numbers a numeric
  field of the program can hold: \<open>NaN\<close> (what \<open>parseFloat\<close> delivers on
  garbage) and \<open>undefined\<close> (a property that is absent, or an optional chain
  \<open>a?.b\<close> through an absent object). The scores of the program are sums of a few
  literals with one decimal digit, compared with such literals; the sums are exact here,
  whereas the program rounds them to binary fractions.
\<close>

datatype jsnum = JUndefined | JNaN | JNum real

text \<open>\<open>v || 0\<close> on a numeric field: the value itself when truthy, else \<open>0\<close>.\<close>

fun or_zero :: "jsnum \<Rightarrow> real" where
  "or_zero (JNum x) = x"
| "or_zero JUndefined = 0"
| "or_zero JNaN = 0"

text \<open>
  A coordinate field (\<open>lat\<close>, \<open>lon\<close>) is tested by the program before it is used as a
  number, so the values it may hold besides a number are kept apart: absent
  (\<open>undefined\<close>), \<open>null\<close>, \<open>NaN\<close> and the booleans. (Strings, arrays and objects, which
  are converted through their text, are not modelled.)
\<close>

datatype jsval = VUndefined | VNull | VNaN | VNum real | VBool bool

text \<open>Truthiness, as \<open>if (v)\<close>, \<open>v && ...\<close> and \<open>v || ...\<close> test it.\<close>

fun truthy :: "jsval \<Rightarrow> bool" where
  "truthy VUndefined = False"
| "truthy VNull = False"
| "truthy VNaN = False"
| "truthy (VNum x) = (x \<noteq> 0)"
| "truthy (VBool b) = b"

text \<open>
  The global \<open>isNaN(v)\<close> converts its argument with \<open>ToNumber\<close> first: \<open>undefined\<close> becomes
  \<open>NaN\<close>, but \<open>null\<close> and \<open>false\<close> become 0 and \<open>true\<close> becomes 1.
\<close>

fun isNaN :: "jsval \<Rightarrow> bool" where
  "isNaN VUndefined = True"
| "isNaN VNull = False"
| "isNaN VNaN = True"
| "isNaN (VNum x) = False"
| "isNaN (VBool b) = False"

section \<open>Decision engine (server: determineClaimDecision, mapPythonToFrontend)\<close>

text \<open>
  The result of the Python pipeline, as far as the decision code reads it. An absent
  sub-object is \<open>None\<close>; an absent numeric field is \<open>JUndefined\<close>.
\<close>

record overall_assessment =
  final_decision :: "string option"
  confidence_score :: jsnum
  risk_level :: "string option"
  manual_review_required :: "bool option"

record payout_calculation =
  sum_insured :: jsnum
  damage_percent :: jsnum
  final_payout_amount :: jsnum
  currency :: "string option"

record python_result =
  overall :: "overall_assessment option"
  payout :: "payout_calculation option"

datatype decision = APPROVE | MANUAL_REVIEW | REJECT

text \<open>
  The \<open>reason\<close> template strings embed \<open>(confidence * 100).toFixed(1)\<close>; the model keeps
  the template and the number that is formatted into it.
\<close>

datatype reason =
    High_confidence real
  | Moderate_confidence real
  | Low_confidence real

record claim_decision =
  decision :: decision
  status :: string
  action :: string
  risk :: string
  review_required :: bool
  reason :: reason
  next_steps :: string
  payout_approved :: bool

text \<open>\<open>pythonResult.overall_assessment?.confidence_score || 0\<close>\<close>

definition confidence_of :: "python_result \<Rightarrow> real" where
  "confidence_of r =
     or_zero (case overall r of None \<Rightarrow> JUndefined | Some a \<Rightarrow> confidence_score a)"

definition determineClaimDecision :: "python_result \<Rightarrow> claim_decision" where
  "determineClaimDecision r =
     (let confidence = confidence_of r in
      if confidence \<ge> 0.70 then
        \<lparr> decision = APPROVE, status = ''approved'', action = ''PROCESS_PAYOUT'',
          risk = ''low'', review_required = False,
          reason = High_confidence (confidence * 100),
          next_steps = ''Payout will be processed within 3-5 business days'',
          payout_approved = True \<rparr>
      else if confidence \<ge> 0.30 \<and> confidence < 0.70 then
        \<lparr> decision = MANUAL_REVIEW, status = ''manual_review'',
          action = ''SCHEDULE_MANUAL_REVIEW'',
          risk = ''medium'', review_required = True,
          reason = Moderate_confidence (confidence * 100),
          next_steps = ''Our team will review your claim within 2-3 business days'',
          payout_approved = False \<rparr>
      else
        \<lparr> decision = REJECT, status = ''rejected'', action = ''REQUEST_RESUBMISSION'',
          risk = ''high'', review_required = False,
          reason = Low_confidence (confidence * 100),
          next_steps = ''Please re-submit your claim with clearer evidence'',
          payout_approved = False \<rparr>)"

text \<open>
  The part of the object \<open>mapPythonToFrontend\<close> builds that depends on the decision:
  \<open>final_decision\<close> and \<open>payout_calculation\<close>. The spread
  \<open>...pythonResult.payout_calculation\<close> copies the upstream fields (none when the object
  is absent); \<open>payout_approved\<close>, \<open>payout_status\<close> and \<open>final_payout_amount\<close> are then
  written over them.
\<close>

record final_decision_out =
  fd_decision :: decision
  fd_risk_level :: string
  fd_manual_review_required :: bool
  fd_confidence_score :: real
  fd_threshold_applied :: string
  fd_payout_approved :: bool

record payout_out =
  po_sum_insured :: jsnum
  po_damage_percent :: jsnum
  po_currency :: "string option"
  po_payout_approved :: bool
  po_payout_status :: string
  po_final_payout_amount :: jsnum

record frontend_result =
  overall_confidence :: real
  recommendation :: claim_decision
  final_decision_of :: final_decision_out
  payout_calculation_of :: payout_out

definition upstream_field :: "python_result \<Rightarrow> (payout_calculation \<Rightarrow> jsnum) \<Rightarrow> jsnum" where
  "upstream_field r f = (case payout r of None \<Rightarrow> JUndefined | Some p \<Rightarrow> f p)"

definition mapPythonToFrontend :: "python_result \<Rightarrow> frontend_result" where
  "mapPythonToFrontend r =
     (let confidence = confidence_of r;
          d = determineClaimDecision r in
      \<lparr> overall_confidence = confidence,
        recommendation = d,
        final_decision_of =
          \<lparr> fd_decision = decision d,
            fd_risk_level = risk d,
            fd_manual_review_required = review_required d,
            fd_confidence_score = confidence,
            fd_threshold_applied =
              (if confidence \<ge> 0.70 then ''auto_approve''
               else if confidence \<ge> 0.30 then ''manual_review'' else ''reject_retry''),
            fd_payout_approved = payout_approved d \<rparr>,
        payout_calculation_of =
          \<lparr> po_sum_insured = upstream_field r sum_insured,
            po_damage_percent = upstream_field r damage_percent,
            po_currency = (case payout r of None \<Rightarrow> None | Some p \<Rightarrow> currency p),
            po_payout_approved = payout_approved d,
            po_payout_status =
              (if decision d = APPROVE then ''processing''
               else if decision d = MANUAL_REVIEW then ''pending_review'' else ''rejected''),
            po_final_payout_amount =
              (if payout_approved d then upstream_field r final_payout_amount
               else JNum 0) \<rparr> \<rparr>)"

text \<open>
  \<open>generateFallbackResult\<close>: the constant result used when the pipeline is unavailable
  (the claim id, the time stamp and the free-text note do not enter any decision).
\<close>

definition generateFallbackResult :: python_result where
  "generateFallbackResult =
     \<lparr> overall = Some \<lparr> final_decision = Some ''MANUAL_REVIEW'', confidence_score = JNum 0.3,
                        risk_level = Some ''medium'', manual_review_required = Some True \<rparr>,
       payout = Some \<lparr> sum_insured = JNum 100000, damage_percent = JNum 42.5,
                       final_payout_amount = JNum 42500, currency = Some ''INR'' \<rparr> \<rparr>"

text \<open>A pipeline result that carries just a confidence score.\<close>

definition with_confidence :: "jsnum \<Rightarrow> python_result" where
  "with_confidence c =
     \<lparr> overall = Some \<lparr> final_decision = None, confidence_score = c,
                        risk_level = None, manual_review_required = None \<rparr>,
       payout = None \<rparr>"

text \<open>
  A pipeline result with confidence \<open>c\<close>, sum insured \<open>s\<close>, damage percentage \<open>d\<close> and the
  payout figure \<open>p\<close> the pipeline put into \<open>payout_calculation.final_payout_amount\<close>.
\<close>

definition pipeline_result :: "real \<Rightarrow> real \<Rightarrow> real \<Rightarrow> jsnum \<Rightarrow> python_result" where
  "pipeline_result c s d p =
     \<lparr> overall = Some \<lparr> final_decision = None, confidence_score = JNum c,
                        risk_level = None, manual_review_required = None \<rparr>,
       payout = Some \<lparr> sum_insured = JNum s, damage_percent = JNum d,
                       final_payout_amount = p, currency = Some ''INR'' \<rparr> \<rparr>"

section \<open>Weather service\<close>

subsection \<open>The damage-weather correlation table\<close>

record correlation =
  supporting :: "string list"
  contradicting :: "string list"
  minTemp :: "real option"
  maxHumidity :: "real option"

definition DAMAGE_WEATHER_CORRELATION :: "(string \<times> correlation) list" where
  "DAMAGE_WEATHER_CORRELATION =
     [(''DR'', \<lparr> supporting = [''Clear'', ''Clouds''],
                contradicting = [''Rain'', ''Thunderstorm'', ''Drizzle''],
                minTemp = Some 30, maxHumidity = Some 40 \<rparr>),
      (''ND'', \<lparr> supporting = [''Rain'', ''Extreme''], contradicting = [],
                minTemp = None, maxHumidity = None \<rparr>),
      (''WD'', \<lparr> supporting = [''Rain'', ''Clear'', ''Clouds''],
                contradicting = [''Snow'', ''Extreme''],
                minTemp = None, maxHumidity = None \<rparr>),
      (''G'', \<lparr> supporting = [''Clear'', ''Clouds'', ''Rain''], contradicting = [''Extreme''],
               minTemp = None, maxHumidity = None \<rparr>),
      (''other'', \<lparr> supporting = [], contradicting = [],
                   minTemp = None, maxHumidity = None \<rparr>)]"

text \<open>
  The table is an object literal, and \<open>DAMAGE_WEATHER_CORRELATION[damageType]\<close> is a
  property read on it. A property read that finds no own property continues on the
  prototype, which for an object literal is \<open>Object.prototype\<close>; its property names are
  listed below, and each of them holds a function or an object, hence a truthy value that
  is not a rule. Only a name found in neither place reads as \<open>undefined\<close>.
\<close>

definition Object_prototype_names :: "string list" where
  "Object_prototype_names =
     [''constructor'', ''hasOwnProperty'', ''isPrototypeOf'', ''propertyIsEnumerable'',
      ''toLocaleString'', ''toString'', ''valueOf'', ''__proto__'',
      ''__defineGetter__'', ''__defineSetter__'', ''__lookupGetter__'', ''__lookupSetter__'']"

datatype property = Own_rule correlation | Inherited | Not_found

definition read_property :: "string \<Rightarrow> property" where
  "read_property k =
     (case map_of DAMAGE_WEATHER_CORRELATION k of
        Some c \<Rightarrow> Own_rule c
      | None \<Rightarrow> if k \<in> set Object_prototype_names then Inherited else Not_found)"

text \<open>\<open>DAMAGE_WEATHER_CORRELATION[damageType] || DAMAGE_WEATHER_CORRELATION['other']\<close>\<close>

definition select_correlation :: "string \<Rightarrow> property" where
  "select_correlation damageType =
     (case read_property damageType of
        Not_found \<Rightarrow> read_property ''other''
      | found \<Rightarrow> found)"

subsection \<open>Weather snapshots, the cache and the provider\<close>

record weather =
  temp :: real
  humidity :: real
  condition :: string
  description :: string
  windSpeed :: real
  timestamp :: int
  isMock :: bool

text \<open>A cache entry is the object \<open>{ data, timestamp }\<close>.\<close>

record cache_entry =
  data :: weather
  stamp :: int

text \<open>
  \<open>x.toFixed(2)\<close> prints a minus sign exactly when \<open>x < 0\<close>, followed by the integer
  nearest to \<open>|x| \<times> 100\<close> (the larger one on a tie) with a point before its last two
  digits (for \<open>|x|\<close> below \<open>10\<^sup>2\<^sup>1\<close>, as every coordinate is). The printed text and the
  pair (sign, integer) determine each other, so the pair stands for the text; the cache key
  joins two of them with a comma.
\<close>

definition toFixed2 :: "real \<Rightarrow> bool \<times> int" where
  "toFixed2 x = (x < 0, \<lfloor>\<bar>x\<bar> * 100 + 1 / 2\<rfloor>)"

type_synonym cache_key = "(bool \<times> int) \<times> (bool \<times> int)"

definition cacheKey :: "real \<Rightarrow> real \<Rightarrow> cache_key" where
  "cacheKey la lo = (toFixed2 la, toFixed2 lo)"

text \<open>
  The service object: the configured key, the cache, and a counter of the requests sent to
  the provider (\<open>axios.get\<close>). The counter is not a field of the source; it records the
  calls so that statements about their number can be made.
\<close>

record weather_service =
  apiKey :: "string option"
  cache :: "cache_key \<Rightarrow> cache_entry option"
  requests :: nat

text \<open>
  What the provider answers to one request: \<open>None\<close> when the request fails or its body
  lacks a field that is read (either way an exception inside the \<open>try\<close>).
\<close>

record provider_reply =
  main_temp :: real
  main_humidity :: real
  weather_main :: string
  weather_description :: string
  wind_speed :: real

type_synonym provider = "real \<Rightarrow> real \<Rightarrow> provider_reply option"

text \<open>
  The values \<open>Date.now()\<close> returns at the places one call of \<open>getCurrentWeather\<close> can read
  it: at the freshness test of a cached entry, when the reply is turned into a snapshot,
  when the snapshot is stored, and when a mock snapshot is built.
\<close>

record clock =
  t_lookup :: int
  t_reply :: int
  t_store :: int
  t_mock :: int

definition CACHE_TTL :: int where
  "CACHE_TTL = 3600 * 1000"

text \<open>The remainder operator \<open>%\<close>: the quotient is truncated towards zero.\<close>

definition js_rem :: "real \<Rightarrow> real \<Rightarrow> real" where
  "js_rem x y =
     x - y * of_int (if 0 \<le> x / y then \<lfloor>x / y\<rfloor> else \<lceil>x / y\<rceil>)"

definition getMockWeatherData :: "int \<Rightarrow> real \<Rightarrow> real \<Rightarrow> weather" where
  "getMockWeatherData now la lo =
     (let isDry = js_rem (la + lo) 2 > 1 in
      \<lparr> temp = (if isDry then 32 else 24),
        humidity = (if isDry then 35 else 75),
        condition = (if isDry then ''Clear'' else ''Rain''),
        description = (if isDry then ''clear sky'' else ''light rain''),
        windSpeed = 5.2,
        timestamp = now,
        isMock = True \<rparr>)"

definition fresh_entry :: "clock \<Rightarrow> weather_service \<Rightarrow> cache_key \<Rightarrow> weather option" where
  "fresh_entry clk s key =
     (case cache s key of
        None \<Rightarrow> None
      | Some e \<Rightarrow> if t_lookup clk - stamp e < CACHE_TTL then Some (data e) else None)"

definition key_not_configured :: "weather_service \<Rightarrow> bool" where
  "key_not_configured s \<longleftrightarrow>
     (case apiKey s of
        None \<Rightarrow> True
      | Some k \<Rightarrow> k = [] \<or> k = ''your_openweathermap_api_key_here'')"

definition getCurrentWeather ::
    "provider \<Rightarrow> clock \<Rightarrow> weather_service \<Rightarrow> real \<Rightarrow> real \<Rightarrow> weather \<times> weather_service" where
  "getCurrentWeather prov clk s la lo =
     (let key = cacheKey la lo in
      case fresh_entry clk s key of
        Some d \<Rightarrow> (d, s)
      | None \<Rightarrow>
          if key_not_configured s then (getMockWeatherData (t_mock clk) la lo, s)
          else
            (case prov la lo of
               None \<Rightarrow>
                 (getMockWeatherData (t_mock clk) la lo, s\<lparr> requests := Suc (requests s) \<rparr>)
             | Some r \<Rightarrow>
                 (let weatherData =
                        \<lparr> temp = main_temp r, humidity = main_humidity r,
                          condition = weather_main r, description = weather_description r,
                          windSpeed = wind_speed r, timestamp = t_reply clk, isMock = False \<rparr>
                  in (weatherData,
                      s\<lparr> cache := (cache s)(key \<mapsto> \<lparr> data = weatherData, stamp = t_store clk \<rparr>),
                         requests := Suc (requests s) \<rparr>))))"

subsection \<open>Verification of the claimed damage against the weather\<close>

datatype weather_status = MATCH | MISMATCH | NEUTRAL | UNKNOWN

datatype js_error = TypeError

text \<open>The detail lines, as template and inserted values.\<close>

datatype weather_detail =
    Condition_supports string string
  | Condition_contradicts string string
  | High_temperature real
  | Low_temperature real
  | Low_humidity real
  | High_humidity real

record weather_result =
  w_status :: weather_status
  w_score :: real
  weather_context :: "weather option"
  w_details :: "weather_detail list"
  w_error :: "js_error option"

text \<open>The local variables \<open>score\<close>, \<open>status\<close> (here \<open>verdict\<close>) and \<open>details\<close> of the function body.\<close>

record tally =
  score :: real
  verdict :: weather_status
  details :: "weather_detail list"

definition check_condition :: "correlation \<Rightarrow> string \<Rightarrow> weather \<Rightarrow> tally \<Rightarrow> tally" where
  "check_condition c damageType w t =
     (if condition w \<in> set (supporting c) then
        t\<lparr> score := score t + 0.3,
           details := details t @ [Condition_supports (condition w) damageType] \<rparr>
      else if condition w \<in> set (contradicting c) then
        t\<lparr> score := score t - 0.4,
           details := details t @ [Condition_contradicts (condition w) damageType],
           verdict := MISMATCH \<rparr>
      else t)"

text \<open>A comparison with an absent threshold (\<open>undefined\<close>) is false.\<close>

definition above :: "real \<Rightarrow> real option \<Rightarrow> bool" where
  "above x bound = (case bound of None \<Rightarrow> False | Some b \<Rightarrow> x > b)"

definition below :: "real \<Rightarrow> real option \<Rightarrow> bool" where
  "below x bound = (case bound of None \<Rightarrow> False | Some b \<Rightarrow> x < b)"

definition check_temperature :: "correlation \<Rightarrow> weather \<Rightarrow> tally \<Rightarrow> tally" where
  "check_temperature c w t =
     (if above (temp w) (minTemp c) then
        t\<lparr> score := score t + 0.2, details := details t @ [High_temperature (temp w)] \<rparr>
      else if temp w < 20 then
        t\<lparr> score := score t - 0.2, details := details t @ [Low_temperature (temp w)] \<rparr>
      else t)"

definition check_humidity :: "correlation \<Rightarrow> weather \<Rightarrow> tally \<Rightarrow> tally" where
  "check_humidity c w t =
     (if below (humidity w) (maxHumidity c) then
        t\<lparr> score := score t + 0.1, details := details t @ [Low_humidity (humidity w)] \<rparr>
      else if humidity w > 80 then
        t\<lparr> score := score t - 0.3, verdict := MISMATCH,
           details := details t @ [High_humidity (humidity w)] \<rparr>
      else t)"

definition check_drought :: "correlation \<Rightarrow> string \<Rightarrow> weather \<Rightarrow> tally \<Rightarrow> tally" where
  "check_drought c damageType w t =
     (if damageType = ''DR'' then check_humidity c w (check_temperature c w t) else t)"

definition cap_score :: "tally \<Rightarrow> tally" where
  "cap_score t = t\<lparr> score := max 0.1 (min 0.99 (score t)) \<rparr>"

definition resolve_status :: "tally \<Rightarrow> tally" where
  "resolve_status t =
     (let t1 = (if score t > 0.7 then t\<lparr> verdict := MATCH \<rparr> else t)
      in if score t1 < 0.3 then t1\<lparr> verdict := MISMATCH \<rparr> else t1)"

text \<open>
  The body of the \<open>try\<close> after the snapshot has been resolved. Reading \<open>.supporting\<close> of an
  inherited property gives \<open>undefined\<close>, and the call of \<open>.includes\<close> on it throws.
\<close>

definition correlate :: "string \<Rightarrow> weather \<Rightarrow> js_error + weather_result" where
  "correlate damageType w =
     (case select_correlation damageType of
        Own_rule c \<Rightarrow>
          (let t = resolve_status (cap_score (check_drought c damageType w
                     (check_condition c damageType w
                        \<lparr> score = 0.5, verdict = NEUTRAL, details = [] \<rparr>)))
           in Inr \<lparr> w_status = verdict t, w_score = score t, weather_context = Some w,
                    w_details = details t, w_error = None \<rparr>)
      | Inherited \<Rightarrow> Inl TypeError
      | Not_found \<Rightarrow> Inl TypeError)"

text \<open>
  The whole function: the \<open>catch\<close> turns an exception into the \<open>UNKNOWN\<close> result. The
  parameter \<open>claimTimestamp\<close> of the source is never read and is left out.
\<close>

definition verifyWeatherDamageCorrelation ::
    "provider \<Rightarrow> clock \<Rightarrow> weather_service \<Rightarrow> real \<Rightarrow> real \<Rightarrow> string
       \<Rightarrow> weather_result \<times> weather_service" where
  "verifyWeatherDamageCorrelation prov clk s la lo damageType =
     (case getCurrentWeather prov clk s la lo of
        (w, s') \<Rightarrow>
          (case correlate damageType w of
             Inr res \<Rightarrow> (res, s')
           | Inl e \<Rightarrow>
               (\<lparr> w_status = UNKNOWN, w_score = 0.5, weather_context = None,
                  w_details = [], w_error = Some e \<rparr>, s')))"

subsection \<open>Service states, clocks and providers to run the statements on\<close>

definition no_key_service :: weather_service where
  "no_key_service = \<lparr> apiKey = None, cache = Map.empty, requests = 0 \<rparr>"

definition clock_at :: "int \<Rightarrow> clock" where
  "clock_at t = \<lparr> t_lookup = t, t_reply = t, t_store = t, t_mock = t \<rparr>"

definition provider_down :: provider where
  "provider_down la lo = None"

definition keyed_service :: weather_service where
  "keyed_service = \<lparr> apiKey = Some ''k'', cache = Map.empty, requests = 0 \<rparr>"

definition provider_reports :: "provider_reply \<Rightarrow> provider" where
  "provider_reports r la lo = Some r"

definition rain_90 :: provider_reply where
  "rain_90 = \<lparr> main_temp = 35, main_humidity = 90, weather_main = ''Rain'',
               weather_description = ''moderate rain'', wind_speed = 3 \<rparr>"

section \<open>Geolocation service\<close>

text \<open>
  A coordinate object \<open>{lat, lon, source}\<close>; \<open>source\<close> is never read. An entry of the list
  that is \<open>null\<close> or \<open>undefined\<close> is \<open>None\<close>, and so is an absent list or user location.
\<close>

record point =
  lat :: jsval
  lon :: jsval

text \<open>
  The two functions of the library \<open>geolib\<close> that the service calls. The library is not
  part of the program, so they are parameters: whatever centre \<open>getCenter\<close> returns, and
  whatever number of metres \<open>getDistance\<close> returns, the statements below hold.
\<close>

record 'c geolib =
  getCenter :: "point list \<Rightarrow> 'c"
  getDistance :: "'c \<Rightarrow> point \<Rightarrow> real"

datatype geo_status = PASS | WARNING | FAIL

text \<open>The detail lines, as template and inserted values.\<close>

datatype geo_detail =
    No_image_coordinates
  | No_valid_GPS_data
  | Extreme_spread real
  | High_spread real
  | Spread_normal real
  | Detected_outliers nat
  | User_mismatch real
  | User_matches real

text \<open>
  The result object. The entries of \<open>metrics\<close> are fields of their own here, \<open>None\<close> while
  not written (the two early returns carry no \<open>metrics\<close> at all).
\<close>

record 'c geo_result =
  g_status :: geo_status
  g_score :: real
  g_details :: "geo_detail list"
  center :: "'c option"
  spread_km :: "real option"
  dist_to_user_m :: "real option"

definition MAX_CLUSTER_SPREAD_KM :: real where
  "MAX_CLUSTER_SPREAD_KM = 5.0"

definition WARNING_THRESHOLD_KM :: real where
  "WARNING_THRESHOLD_KM = 2.0"

definition EXIF_USER_TOLERANCE_M :: real where
  "EXIF_USER_TOLERANCE_M = 100"

text \<open>The filter \<open>c && !isNaN(c.lat) && !isNaN(c.lon)\<close>.\<close>

definition usable :: "point option \<Rightarrow> bool" where
  "usable c = (case c of None \<Rightarrow> False | Some p \<Rightarrow> \<not> isNaN (lat p) \<and> \<not> isNaN (lon p))"

definition validCoords :: "point option list \<Rightarrow> point list" where
  "validCoords coordinatesList = map the (filter usable coordinatesList)"

text \<open>The \<open>forEach\<close> that finds the largest distance from the centre, starting from 0.\<close>

definition maxDist :: "'c geolib \<Rightarrow> 'c \<Rightarrow> point list \<Rightarrow> real" where
  "maxDist g ctr coords =
     fold (\<lambda>c m. let dist = getDistance g ctr c in if dist > m then dist else m) coords 0"

text \<open>
  \<open>_detectOutliers\<close>. The mean is \<open>reduce((a, b) => a + b, 0) / length\<close>; the filter reads
  the distance of a point through its index. (On an empty list the source divides 0 by 0
  and filters nothing; the model returns the empty list there as well.)
\<close>

definition avgDist :: "'c geolib \<Rightarrow> point list \<Rightarrow> 'c \<Rightarrow> real" where
  "avgDist g coords ctr =
     foldl (\<lambda>a b. a + b) 0 (map (getDistance g ctr) coords) / real (length coords)"

definition detectOutliers :: "'c geolib \<Rightarrow> point list \<Rightarrow> 'c \<Rightarrow> point list" where
  "detectOutliers g coords ctr =
     (let distances = map (getDistance g ctr) coords;
          avg = avgDist g coords ctr
      in if avg < 10 then []
         else map fst (filter (\<lambda>(c, i). distances ! i > avg * 3)
                         (zip coords [0..<length coords])))"

text \<open>Step 1 of \<open>verifyCoordinates\<close>: the spread of the cluster.\<close>

definition check_spread :: "real \<Rightarrow> 'c geo_result \<Rightarrow> 'c geo_result" where
  "check_spread spreadKm res =
     (if spreadKm > MAX_CLUSTER_SPREAD_KM then
        res\<lparr> g_status := FAIL, g_score := g_score res - 0.6,
             g_details := g_details res @ [Extreme_spread spreadKm] \<rparr>
      else if spreadKm > WARNING_THRESHOLD_KM then
        res\<lparr> g_status := WARNING, g_score := g_score res - 0.3,
             g_details := g_details res @ [High_spread spreadKm] \<rparr>
      else
        res\<lparr> g_details := g_details res @ [Spread_normal spreadKm] \<rparr>)"

text \<open>Step 2: the penalty for the outliers found.\<close>

definition check_outliers :: "point list \<Rightarrow> 'c geo_result \<Rightarrow> 'c geo_result" where
  "check_outliers outliers res =
     (if length outliers > 0 then
        res\<lparr> g_score := g_score res - real (length outliers) * 0.1,
             g_details := g_details res @ [Detected_outliers (length outliers)] \<rparr>
      else res)"

text \<open>Step 3: the match with the location the user reported.\<close>

definition check_user :: "'c geolib \<Rightarrow> 'c \<Rightarrow> point option \<Rightarrow> 'c geo_result \<Rightarrow> 'c geo_result" where
  "check_user g ctr userLocation res =
     (case userLocation of
        None \<Rightarrow> res
      | Some u \<Rightarrow>
          if truthy (lat u) then
            (let userDist = getDistance g ctr u;
                 res1 = res\<lparr> dist_to_user_m := Some userDist \<rparr>
             in if userDist > EXIF_USER_TOLERANCE_M * 5 then
                  res1\<lparr> g_score := g_score res1 - 0.3,
                        g_details := g_details res1 @ [User_mismatch userDist],
                        g_status := (if g_status res1 = PASS then WARNING else g_status res1) \<rparr>
                else
                  res1\<lparr> g_details := g_details res1 @ [User_matches userDist] \<rparr>)
          else res)"

text \<open>
  The object \<open>results\<close> as created, with the two entries of \<open>metrics\<close> that are always
  written: \<open>center\<close> and \<open>spread_km\<close>.
\<close>

definition initial_results :: "'c \<Rightarrow> real \<Rightarrow> 'c geo_result" where
  "initial_results ctr spreadKm =
     \<lparr> g_status = PASS, g_score = 1.0, g_details = [],
       center = Some ctr, spread_km = Some spreadKm, dist_to_user_m = None \<rparr>"

definition no_coordinates :: "'c geo_result" where
  "no_coordinates =
     \<lparr> g_status = WARNING, g_score = 0.5, g_details = [No_image_coordinates],
       center = None, spread_km = None, dist_to_user_m = None \<rparr>"

definition no_valid_data :: "'c geo_result" where
  "no_valid_data =
     \<lparr> g_status = WARNING, g_score = 0.5, g_details = [No_valid_GPS_data],
       center = None, spread_km = None, dist_to_user_m = None \<rparr>"

definition verifyCoordinates ::
    "'c geolib \<Rightarrow> point option list option \<Rightarrow> point option \<Rightarrow> 'c geo_result" where
  "verifyCoordinates g coordinatesList userLocation =
     (case coordinatesList of
        None \<Rightarrow> no_coordinates
      | Some l \<Rightarrow>
          if length l = 0 then no_coordinates
          else
            (let valid = validCoords l in
             if length valid = 0 then no_valid_data
             else
               (let ctr = getCenter g valid;
                    spreadKm = maxDist g ctr valid / 1000;
                    r1 = check_spread spreadKm (initial_results ctr spreadKm);
                    r2 = check_outliers (detectOutliers g valid ctr) r1;
                    r3 = check_user g ctr userLocation r2
                in r3\<lparr> g_score := max 0 (min 1 (g_score r3)) \<rparr>)))"

subsection \<open>A library, clusters and user locations to run the statements on\<close>

text \<open>
  A stand-in for the library: positions are metres along a line (held in \<open>lat\<close>), the
  centre is the origin.
\<close>

definition metres_from_origin :: "point \<Rightarrow> real" where
  "metres_from_origin p = (case lat p of VNum x \<Rightarrow> \<bar>x\<bar> | _ \<Rightarrow> 0)"

definition line_geolib :: "unit geolib" where
  "line_geolib = \<lparr> getCenter = (\<lambda>coords. ()), getDistance = (\<lambda>ctr. metres_from_origin) \<rparr>"

definition at_metres :: "real \<Rightarrow> point option" where
  "at_metres x = Some \<lparr> lat = VNum x, lon = VNum 0 \<rparr>"

text \<open>
  Four photos about 5 m from the centre, one of them 2 m further out than the others; and
  seven photos at the centre with two more 10 km away.
\<close>

definition tight_cluster :: "point option list" where
  "tight_cluster = [at_metres 4.5, at_metres 4.5, at_metres 4.5, at_metres 6.5]"

definition scattered_cluster :: "point option list" where
  "scattered_cluster =
     [at_metres 0, at_metres 0, at_metres 0, at_metres 0, at_metres 0, at_metres 0,
      at_metres 0, at_metres 10000, at_metres 10000]"

text \<open>Four photos at the centre and one 20 m away.\<close>

definition jitter_cluster :: "point option list" where
  "jitter_cluster = [at_metres 0, at_metres 0, at_metres 0, at_metres 0, at_metres 20]"

text \<open>A photo whose coordinates are both \<open>null\<close>.\<close>

definition null_point :: point where
  "null_point = \<lparr> lat = VNull, lon = VNull \<rparr>"

definition on_equator :: point where
  "on_equator = \<lparr> lat = VNum 0, lon = VNum 73 \<rparr>"

definition far_away :: point where
  "far_away = \<lparr> lat = VNum 20000, lon = VNum 0 \<rparr>"

section \<open>Decision banding\<close>

lemma confidence_with_confidence [simp]: "confidence_of (with_confidence c) = or_zero c"
  by (simp add: confidence_of_def with_confidence_def)

lemma decision_by_confidence:
  "decision (determineClaimDecision r) =
     (if confidence_of r \<ge> 0.70 then APPROVE
      else if confidence_of r \<ge> 0.30 then MANUAL_REVIEW else REJECT)"
  by (simp add: determineClaimDecision_def Let_def)

text \<open>A confidence score that is absent, \<open>NaN\<close> or 0 counts as 0, and the claim is rejected.\<close>

lemma falsy_confidence_rejects:
  assumes "c = JUndefined \<or> c = JNaN \<or> c = JNum 0"
  shows "decision (determineClaimDecision (with_confidence c)) = REJECT"
  using assms by (auto simp: decision_by_confidence)

text \<open>
  Claim C1. For every numeric confidence score \<open>c\<close> the decision is \<open>APPROVE\<close> exactly when
  \<open>c \<ge> 0.70\<close>, \<open>MANUAL_REVIEW\<close> exactly when \<open>0.30 \<le> c < 0.70\<close> and \<open>REJECT\<close> exactly when
  \<open>c < 0.30\<close>; both lower bounds are inclusive.
\<close>

theorem determineClaimDecision_bands:
  assumes "overall r = Some a" and "confidence_score a = JNum c"
  shows "(decision (determineClaimDecision r) = APPROVE \<longleftrightarrow> c \<ge> 0.70) \<and>
         (decision (determineClaimDecision r) = MANUAL_REVIEW \<longleftrightarrow> 0.30 \<le> c \<and> c < 0.70) \<and>
         (decision (determineClaimDecision r) = REJECT \<longleftrightarrow> c < 0.30)"
proof -
  have "confidence_of r = c"
    using assms by (simp add: confidence_of_def)
  then show ?thesis
    by (simp add: decision_by_confidence)
qed

theorem determineClaimDecision_bands_witness:
  "decision (determineClaimDecision (with_confidence (JNum 0.70))) = APPROVE \<and>
   decision (determineClaimDecision (with_confidence (JNum 0.6999))) = MANUAL_REVIEW \<and>
   decision (determineClaimDecision (with_confidence (JNum 0.30))) = MANUAL_REVIEW \<and>
   decision (determineClaimDecision (with_confidence (JNum 0.2999))) = REJECT"
proof -
  note bands = determineClaimDecision_bands [of "with_confidence (JNum c)"
      "\<lparr> final_decision = None, confidence_score = JNum c,
         risk_level = None, manual_review_required = None \<rparr>" c for c]
  show ?thesis
    using bands [of "0.70"] bands [of "0.6999"] bands [of "0.30"] bands [of "0.2999"]
    by (simp add: with_confidence_def)
qed

section \<open>Payout\<close>

lemma confidence_pipeline_result [simp]: "confidence_of (pipeline_result c s d p) = c"
  by (simp add: confidence_of_def pipeline_result_def)

lemma upstream_pipeline_result [simp]:
  "upstream_field (pipeline_result c s d p) final_payout_amount = p"
  by (simp add: upstream_field_def pipeline_result_def)

lemma mapped_decision:
  "fd_decision (final_decision_of (mapPythonToFrontend r)) = decision (determineClaimDecision r)"
  by (simp add: mapPythonToFrontend_def Let_def)

lemma mapped_payout_amount:
  "po_final_payout_amount (payout_calculation_of (mapPythonToFrontend r)) =
     (if payout_approved (determineClaimDecision r) then upstream_field r final_payout_amount
      else JNum 0)"
  by (simp add: mapPythonToFrontend_def Let_def)

lemma mapped_payout_status:
  "po_payout_status (payout_calculation_of (mapPythonToFrontend r)) =
     (if decision (determineClaimDecision r) = APPROVE then ''processing''
      else if decision (determineClaimDecision r) = MANUAL_REVIEW then ''pending_review''
      else ''rejected'')"
  by (simp add: mapPythonToFrontend_def Let_def)

lemma approved_iff_APPROVE:
  "payout_approved (determineClaimDecision r) \<longleftrightarrow> decision (determineClaimDecision r) = APPROVE"
  by (simp add: determineClaimDecision_def Let_def)

text \<open>
  Claim C2, as stated, fails on the code. (1) Under \<open>MANUAL_REVIEW\<close> (confidence 0.5) the
  mapped payout amount is not left unset: it is the number 0, exactly as under \<open>REJECT\<close>.
  (2) Under \<open>APPROVE\<close> the amount is whatever the pipeline supplied, here 40000 for a sum
  insured of 100000 and 50 percent damage, not \<open>100000 \<times> 50 / 100\<close>. (3) The fallback result
  carries the decision \<open>MANUAL_REVIEW\<close> together with a payout amount of 42500.
\<close>

theorem payout_as_stated_counterexample:
  "fd_decision (final_decision_of
      (mapPythonToFrontend (pipeline_result 0.5 100000 50 (JNum 50000)))) = MANUAL_REVIEW \<and>
   po_final_payout_amount (payout_calculation_of
      (mapPythonToFrontend (pipeline_result 0.5 100000 50 (JNum 50000)))) = JNum 0 \<and>
   po_final_payout_amount (payout_calculation_of
      (mapPythonToFrontend (pipeline_result 0.5 100000 50 (JNum 50000)))) \<noteq> JUndefined \<and>
   fd_decision (final_decision_of
      (mapPythonToFrontend (pipeline_result 0.8 100000 50 (JNum 40000)))) = APPROVE \<and>
   po_final_payout_amount (payout_calculation_of
      (mapPythonToFrontend (pipeline_result 0.8 100000 50 (JNum 40000))))
     \<noteq> JNum (100000 * 50 / 100) \<and>
   map_option final_decision (overall generateFallbackResult) = Some (Some ''MANUAL_REVIEW'') \<and>
   map_option final_payout_amount (payout generateFallbackResult) = Some (JNum 42500)"
  by (simp add: mapped_decision mapped_payout_amount approved_iff_APPROVE
      decision_by_confidence generateFallbackResult_def)

text \<open>
  Claim C2, amended. The mapped payout amount is the pipeline's own
  \<open>payout_calculation.final_payout_amount\<close> when the decision is \<open>APPROVE\<close> (the code computes
  no product itself) and the number 0 when the decision is \<open>REJECT\<close> or \<open>MANUAL_REVIEW\<close>; the
  payout status is then \<open>rejected\<close> and \<open>pending_review\<close> respectively.
\<close>

theorem mapPythonToFrontend_payout:
  "po_final_payout_amount (payout_calculation_of (mapPythonToFrontend r)) =
     (if fd_decision (final_decision_of (mapPythonToFrontend r)) = APPROVE
      then upstream_field r final_payout_amount else JNum 0) \<and>
   po_payout_status (payout_calculation_of (mapPythonToFrontend r)) =
     (if fd_decision (final_decision_of (mapPythonToFrontend r)) = APPROVE then ''processing''
      else if fd_decision (final_decision_of (mapPythonToFrontend r)) = MANUAL_REVIEW
      then ''pending_review'' else ''rejected'')"
  by (simp add: mapped_decision mapped_payout_amount mapped_payout_status approved_iff_APPROVE)

theorem mapPythonToFrontend_payout_witness:
  "fd_decision (final_decision_of
      (mapPythonToFrontend (pipeline_result 0.8 100000 50 (JNum 50000)))) = APPROVE \<and>
   po_final_payout_amount (payout_calculation_of
      (mapPythonToFrontend (pipeline_result 0.8 100000 50 (JNum 50000)))) = JNum 50000 \<and>
   po_final_payout_amount (payout_calculation_of
      (mapPythonToFrontend (pipeline_result 0.2 100000 50 (JNum 50000)))) = JNum 0 \<and>
   po_payout_status (payout_calculation_of
      (mapPythonToFrontend (pipeline_result 0.5 100000 50 (JNum 50000)))) = ''pending_review''"
  using mapPythonToFrontend_payout [of "pipeline_result 0.8 100000 50 (JNum 50000)"]
    mapPythonToFrontend_payout [of "pipeline_result 0.2 100000 50 (JNum 50000)"]
    mapPythonToFrontend_payout [of "pipeline_result 0.5 100000 50 (JNum 50000)"]
  by (simp add: mapped_decision decision_by_confidence)

section \<open>Weather: the rule that is applied\<close>

lemma read_property_other:
  "read_property ''other'' =
     Own_rule \<lparr> supporting = [], contradicting = [], minTemp = None, maxHumidity = None \<rparr>"
  by (simp add: read_property_def DAMAGE_WEATHER_CORRELATION_def)

lemma read_property_DR:
  "read_property ''DR'' =
     Own_rule \<lparr> supporting = [''Clear'', ''Clouds''],
                contradicting = [''Rain'', ''Thunderstorm'', ''Drizzle''],
                minTemp = Some 30, maxHumidity = Some 40 \<rparr>"
  by (simp add: read_property_def DAMAGE_WEATHER_CORRELATION_def)

lemma read_property_Own:
  assumes "read_property k = Own_rule c"
  shows "(k, c) \<in> set DAMAGE_WEATHER_CORRELATION"
  using assms by (auto simp: read_property_def dest: map_of_SomeD split: option.splits if_splits)

lemma select_correlation_Own:
  assumes "select_correlation k = Own_rule c"
  shows "(k, c) \<in> set DAMAGE_WEATHER_CORRELATION \<or>
         c = \<lparr> supporting = [], contradicting = [], minTemp = None, maxHumidity = None \<rparr>"
  using assms read_property_Own [of k c]
  by (auto simp: select_correlation_def read_property_other split: property.splits)

lemma table_rules:
  assumes "(k, c) \<in> set DAMAGE_WEATHER_CORRELATION"
  shows "set (supporting c) \<inter> set (contradicting c) = {}"
    and "k = ''DR'' \<Longrightarrow> maxHumidity c = Some 40"
  using assms by (auto simp: DAMAGE_WEATHER_CORRELATION_def)

section \<open>Weather: how each step moves the score\<close>

lemma check_condition_le:
  "score (check_condition c d w t) \<le> score t + 0.3"
  by (simp add: check_condition_def)

lemma check_condition_keeps:
  "verdict t = MISMATCH \<Longrightarrow> verdict (check_condition c d w t) = MISMATCH"
  by (simp add: check_condition_def)

lemma check_condition_contradicts:
  assumes "condition w \<in> set (contradicting c)" and "condition w \<notin> set (supporting c)"
  shows "score (check_condition c d w t) = score t - 0.4"
    and "verdict (check_condition c d w t) = MISMATCH"
  using assms by (simp_all add: check_condition_def)

lemma check_temperature_le:
  "score (check_temperature c w t) \<le> score t + 0.2"
  by (simp add: check_temperature_def)

lemma check_temperature_verdict:
  "verdict (check_temperature c w t) = verdict t"
  by (simp add: check_temperature_def)

lemma check_humidity_le:
  "score (check_humidity c w t) \<le> score t + 0.1"
  by (simp add: check_humidity_def)

lemma check_humidity_keeps:
  "verdict t = MISMATCH \<Longrightarrow> verdict (check_humidity c w t) = MISMATCH"
  by (simp add: check_humidity_def)

lemma check_humidity_high:
  assumes "humidity w > 80" and "maxHumidity c = Some 40"
  shows "score (check_humidity c w t) = score t - 0.3"
    and "verdict (check_humidity c w t) = MISMATCH"
  using assms by (simp_all add: check_humidity_def below_def)

lemma check_drought_le:
  "score (check_drought c d w t) \<le> score t + 0.3"
  using check_humidity_le [of c w "check_temperature c w t"] check_temperature_le [of c w t]
  by (simp add: check_drought_def)

lemma check_drought_keeps:
  "verdict t = MISMATCH \<Longrightarrow> verdict (check_drought c d w t) = MISMATCH"
  by (simp add: check_drought_def check_humidity_keeps check_temperature_verdict)

lemma check_drought_high:
  assumes "humidity w > 80" and "maxHumidity c = Some 40"
  shows "score (check_drought c ''DR'' w t) \<le> score t - 0.1"
    and "verdict (check_drought c ''DR'' w t) = MISMATCH"
  using assms check_temperature_le [of c w t]
  by (simp_all add: check_drought_def check_humidity_high)

lemma cap_score_bounds:
  "0.1 \<le> score (cap_score t)" "score (cap_score t) \<le> 0.99"
  by (simp_all add: cap_score_def)

lemma score_resolve_status [simp]: "score (resolve_status t) = score t"
  by (simp add: resolve_status_def Let_def)

lemma resolve_keeps_mismatch:
  assumes "verdict t = MISMATCH" and "score t \<le> 0.7"
  shows "verdict (resolve_status (cap_score t)) = MISMATCH"
  using assms by (simp add: resolve_status_def cap_score_def Let_def)

lemma correlate_score:
  assumes "correlate d w = Inr res"
  shows "0.1 \<le> w_score res \<and> w_score res \<le> 0.99"
  using assms cap_score_bounds
  by (auto simp: correlate_def Let_def split: property.splits)

lemma correlate_forced:
  assumes sel: "select_correlation d = Own_rule c"
    and forced: "condition w \<in> set (contradicting c) \<or> (d = ''DR'' \<and> humidity w > 80)"
  shows "\<exists>res. correlate d w = Inr res \<and> w_status res = MISMATCH"
proof -
  let ?t0 = "\<lparr> score = 0.5, verdict = NEUTRAL, details = [] \<rparr>"
  let ?t1 = "check_condition c d w ?t0"
  let ?t2 = "check_drought c d w ?t1"
  have disjoint: "set (supporting c) \<inter> set (contradicting c) = {}"
    using select_correlation_Own [OF sel] table_rules(1) [of d c] by auto
  have "verdict ?t2 = MISMATCH \<and> score ?t2 \<le> 0.7"
  proof (cases "condition w \<in> set (contradicting c)")
    case True
    with disjoint have "condition w \<notin> set (supporting c)" by auto
    with True have "score ?t1 = 0.5 - 0.4" and "verdict ?t1 = MISMATCH"
      using check_condition_contradicts [of w c d ?t0] by simp_all
    then show ?thesis
      using check_drought_le [of c d w ?t1] check_drought_keeps [of ?t1 c d w] by simp
  next
    case False
    with forced have dr: "d = ''DR''" and wet: "humidity w > 80" by auto
    from sel dr have "read_property ''DR'' = Own_rule c"
      by (simp add: select_correlation_def read_property_DR)
    then have "maxHumidity c = Some 40"
      by (auto simp: read_property_DR)
    with wet have "score ?t2 \<le> score ?t1 - 0.1" and "verdict ?t2 = MISMATCH"
      using check_drought_high [of w c ?t1] dr by simp_all
    then show ?thesis
      using check_condition_le [of c d w ?t0] by simp
  qed
  then have "verdict (resolve_status (cap_score ?t2)) = MISMATCH"
    using resolve_keeps_mismatch by blast
  then show ?thesis
    using sel by (simp add: correlate_def Let_def)
qed

lemma mock_wet: "getMockWeatherData now (1 / 2) 0 =
   \<lparr> temp = 24, humidity = 75, condition = ''Rain'', description = ''light rain'',
     windSpeed = 5.2, timestamp = now, isMock = True \<rparr>"
  by (simp add: getMockWeatherData_def js_rem_def)

lemma mock_dry: "getMockWeatherData now (3 / 2) 0 =
   \<lparr> temp = 32, humidity = 35, condition = ''Clear'', description = ''clear sky'',
     windSpeed = 5.2, timestamp = now, isMock = True \<rparr>"
  by (simp add: getMockWeatherData_def js_rem_def)

lemma getCurrentWeather_no_key:
  assumes "key_not_configured s" and "fresh_entry clk s (cacheKey la lo) = None"
  shows "getCurrentWeather prov clk s la lo = (getMockWeatherData (t_mock clk) la lo, s)"
  using assms by (simp add: getCurrentWeather_def)

lemma fresh_entry_empty [simp]: "fresh_entry clk no_key_service key = None"
  "fresh_entry clk keyed_service key = None"
  by (simp_all add: fresh_entry_def no_key_service_def keyed_service_def)

lemma key_not_configured_fixtures [simp]:
  "key_not_configured no_key_service" "\<not> key_not_configured keyed_service"
  by (simp_all add: key_not_configured_def no_key_service_def keyed_service_def)

lemma correlate_DR:
  "correlate ''DR'' w =
     (let c = \<lparr> supporting = [''Clear'', ''Clouds''],
                 contradicting = [''Rain'', ''Thunderstorm'', ''Drizzle''],
                 minTemp = Some 30, maxHumidity = Some 40 \<rparr>;
          t = resolve_status (cap_score (check_humidity c w (check_temperature c w
                (check_condition c ''DR'' w \<lparr> score = 0.5, verdict = NEUTRAL, details = [] \<rparr>))))
      in Inr \<lparr> w_status = verdict t, w_score = score t, weather_context = Some w,
               w_details = details t, w_error = None \<rparr>)"
  by (simp add: correlate_def select_correlation_def read_property_DR check_drought_def Let_def)

lemma verify_by_snapshot:
  "fst (verifyWeatherDamageCorrelation prov clk s la lo d) =
     (case correlate d (fst (getCurrentWeather prov clk s la lo)) of
        Inr res \<Rightarrow> res
      | Inl e \<Rightarrow> \<lparr> w_status = UNKNOWN, w_score = 0.5, weather_context = None,
                   w_details = [], w_error = Some e \<rparr>)"
  by (simp add: verifyWeatherDamageCorrelation_def split: prod.splits sum.splits)

lemma drought_on_wet_mock:
  "w_score (fst (verifyWeatherDamageCorrelation provider_down clk no_key_service
      (1 / 2) 0 ''DR'')) = 1 / 10"
  apply (simp add: verify_by_snapshot getCurrentWeather_no_key mock_wet)
  apply (simp add: correlate_DR Let_def)
  apply (simp add: check_condition_def)
  apply (simp add: check_temperature_def above_def)
  apply (simp add: check_humidity_def below_def)
  apply (simp add: cap_score_def)
  done

lemma drought_on_dry_mock:
  "w_score (fst (verifyWeatherDamageCorrelation provider_down clk no_key_service
      (3 / 2) 0 ''DR'')) = 99 / 100"
  apply (simp add: verify_by_snapshot getCurrentWeather_no_key mock_dry)
  apply (simp add: correlate_DR Let_def)
  apply (simp add: check_condition_def)
  apply (simp add: check_temperature_def above_def)
  apply (simp add: check_humidity_def below_def)
  apply (simp add: cap_score_def)
  done

text \<open>
  Claim C3, as stated, fails on the code: the cap is \<open>Math.max(0.1, Math.min(0.99, score))\<close>,
  which reaches both ends. Without a provider key the mock snapshot at \<open>(0.5, 0)\<close> is rainy,
  and a drought claim there scores exactly 0.1; the mock snapshot at \<open>(1.5, 0)\<close> is dry and
  hot, and the same claim scores exactly 0.99.
\<close>

theorem weather_score_open_bounds_counterexample:
  "w_score (fst (verifyWeatherDamageCorrelation provider_down (clock_at 0) no_key_service
      0.5 0 ''DR'')) = 0.1 \<and>
   w_score (fst (verifyWeatherDamageCorrelation provider_down (clock_at 0) no_key_service
      1.5 0 ''DR'')) = 0.99"
  using drought_on_wet_mock [of "clock_at 0"] drought_on_dry_mock [of "clock_at 0"]
  by simp

text \<open>
  Claim C3, amended. For every input, service state and provider behaviour the score
  returned by the weather verification lies in the closed interval from 0.1 to 0.99.
\<close>

theorem weather_score_closed_bounds:
  "0.1 \<le> w_score (fst (verifyWeatherDamageCorrelation prov clk s la lo damageType)) \<and>
   w_score (fst (verifyWeatherDamageCorrelation prov clk s la lo damageType)) \<le> 0.99"
proof (cases "correlate damageType (fst (getCurrentWeather prov clk s la lo))")
  case (Inl e)
  then show ?thesis by (simp add: verify_by_snapshot)
next
  case (Inr res)
  then show ?thesis using correlate_score [OF Inr] by (simp add: verify_by_snapshot)
qed

theorem weather_score_closed_bounds_witness:
  "0.1 \<le> w_score (fst (verifyWeatherDamageCorrelation provider_down (clock_at 0)
      no_key_service 0.5 0 ''WD'')) \<and>
   w_score (fst (verifyWeatherDamageCorrelation provider_down (clock_at 0)
      no_key_service 0.5 0 ''WD'')) \<le> 0.99"
  by (rule weather_score_closed_bounds)

text \<open>
  Claim C4. Whenever a forced mismatch occurs (the observed condition is in the
  contradicting list of the rule applied, or the damage type is \<open>DR\<close> and the humidity is
  above 80), the returned status is \<open>MISMATCH\<close>: the final resolution by score never turns
  it into \<open>MATCH\<close> or \<open>NEUTRAL\<close>.
\<close>

theorem forced_mismatch_is_kept:
  assumes "select_correlation damageType = Own_rule c"
    and "condition (fst (getCurrentWeather prov clk s la lo)) \<in> set (contradicting c) \<or>
         (damageType = ''DR'' \<and> humidity (fst (getCurrentWeather prov clk s la lo)) > 80)"
  shows "w_status (fst (verifyWeatherDamageCorrelation prov clk s la lo damageType)) = MISMATCH"
proof -
  obtain res where "correlate damageType (fst (getCurrentWeather prov clk s la lo)) = Inr res"
    and "w_status res = MISMATCH"
    using correlate_forced [OF assms] by blast
  then show ?thesis by (simp add: verify_by_snapshot)
qed

lemma getCurrentWeather_fetch:
  assumes "\<not> key_not_configured s" and "fresh_entry clk s (cacheKey la lo) = None"
    and "prov la lo = Some r"
  shows "getCurrentWeather prov clk s la lo =
     (\<lparr> temp = main_temp r, humidity = main_humidity r, condition = weather_main r,
        description = weather_description r, windSpeed = wind_speed r,
        timestamp = t_reply clk, isMock = False \<rparr>,
      s\<lparr> cache := (cache s)(cacheKey la lo \<mapsto>
              \<lparr> data = \<lparr> temp = main_temp r, humidity = main_humidity r,
                         condition = weather_main r, description = weather_description r,
                         windSpeed = wind_speed r, timestamp = t_reply clk, isMock = False \<rparr>,
                stamp = t_store clk \<rparr>),
         requests := Suc (requests s) \<rparr>)"
  using assms by (simp add: getCurrentWeather_def Let_def)

theorem forced_mismatch_is_kept_witness:
  "w_status (fst (verifyWeatherDamageCorrelation (provider_reports rain_90) (clock_at 0)
      keyed_service 19 73 ''DR'')) = MISMATCH"
proof -
  have snap: "fst (getCurrentWeather (provider_reports rain_90) (clock_at 0) keyed_service
      19 73) = \<lparr> temp = 35, humidity = 90, condition = ''Rain'',
        description = ''moderate rain'', windSpeed = 3, timestamp = 0, isMock = False \<rparr>"
    by (simp add: getCurrentWeather_fetch [where r = rain_90] provider_reports_def)
      (simp add: rain_90_def clock_at_def)
  have sel: "select_correlation ''DR'' = Own_rule \<lparr> supporting = [''Clear'', ''Clouds''],
                contradicting = [''Rain'', ''Thunderstorm'', ''Drizzle''],
                minTemp = Some 30, maxHumidity = Some 40 \<rparr>"
    by (simp add: select_correlation_def read_property_DR)
  show ?thesis
    by (rule forced_mismatch_is_kept [OF sel]) (simp add: snap)
qed

text \<open>
  Claim C6 at the damage type code \<open>toString\<close>. The code has no entry in the table, yet the
  property read finds the inherited method, the default rule is not selected, and the
  verification ends in the \<open>catch\<close>: the status is \<open>UNKNOWN\<close>, not \<open>NEUTRAL\<close>.
\<close>

theorem inherited_name_is_unknown:
  "map_of DAMAGE_WEATHER_CORRELATION ''toString'' = None \<and>
   w_status (fst (verifyWeatherDamageCorrelation prov clk s la lo ''toString'')) = UNKNOWN \<and>
   w_error (fst (verifyWeatherDamageCorrelation prov clk s la lo ''toString'')) = Some TypeError"
proof -
  have "read_property ''toString'' = Inherited"
    by (simp add: read_property_def DAMAGE_WEATHER_CORRELATION_def Object_prototype_names_def)
  then have "correlate ''toString'' w = Inl TypeError" for w
    by (simp add: correlate_def select_correlation_def)
  then show ?thesis
    by (simp add: verify_by_snapshot DAMAGE_WEATHER_CORRELATION_def)
qed

theorem inherited_name_is_unknown_witness:
  "w_status (fst (verifyWeatherDamageCorrelation provider_down (clock_at 0) no_key_service
      19 73 ''toString'')) = UNKNOWN"
  using inherited_name_is_unknown [of provider_down "clock_at 0" no_key_service 19 73]
  by simp

text \<open>
  For a code that is neither a key of the table nor a property name of \<open>Object.prototype\<close>
  the default rule applies, and the result is \<open>NEUTRAL\<close> with score 0.5.
\<close>

lemma unlisted_code_is_neutral:
  assumes "map_of DAMAGE_WEATHER_CORRELATION damageType = None"
    and "damageType \<notin> set Object_prototype_names"
  shows "w_status (fst (verifyWeatherDamageCorrelation prov clk s la lo damageType)) = NEUTRAL"
    and "w_score (fst (verifyWeatherDamageCorrelation prov clk s la lo damageType)) = 0.5"
proof -
  have dr: "damageType \<noteq> ''DR''"
    using assms(1) by (auto simp: DAMAGE_WEATHER_CORRELATION_def)
  have "read_property damageType = Not_found"
    using assms by (simp add: read_property_def)
  then have "select_correlation damageType =
      Own_rule \<lparr> supporting = [], contradicting = [], minTemp = None, maxHumidity = None \<rparr>"
    by (simp add: select_correlation_def read_property_other)
  then have "correlate damageType w =
      Inr \<lparr> w_status = NEUTRAL, w_score = 0.5, weather_context = Some w,
            w_details = [], w_error = None \<rparr>" for w
    using dr
    by (simp add: correlate_def check_condition_def check_drought_def cap_score_def
        resolve_status_def)
  then show "w_status (fst (verifyWeatherDamageCorrelation prov clk s la lo damageType)) = NEUTRAL"
    and "w_score (fst (verifyWeatherDamageCorrelation prov clk s la lo damageType)) = 0.5"
    by (simp_all add: verify_by_snapshot)
qed

section \<open>Weather: the cache\<close>

lemma getCurrentWeather_hit:
  assumes "fresh_entry clk s (cacheKey la lo) = Some d"
  shows "getCurrentWeather prov clk s la lo = (d, s)"
  using assms by (simp add: getCurrentWeather_def)

lemma getCurrentWeather_down:
  assumes "\<not> key_not_configured s" and "fresh_entry clk s (cacheKey la lo) = None"
    and "prov la lo = None"
  shows "getCurrentWeather prov clk s la lo =
     (getMockWeatherData (t_mock clk) la lo, s\<lparr> requests := Suc (requests s) \<rparr>)"
  using assms by (simp add: getCurrentWeather_def)

lemma cache_unchanged_without_reply:
  assumes "key_not_configured s \<or> prov la lo = None"
  shows "cache (snd (getCurrentWeather prov clk s la lo)) = cache s"
  using assms by (auto simp: getCurrentWeather_def Let_def split: option.splits)

text \<open>
  Claim C5, as stated, fails on the code. A mock snapshot is returned without being stored:
  after a lookup with no provider key the cache has no entry for the cell. With a key
  configured but the provider failing, a second lookup for the same coordinates one second
  later sends a second request. And the latitudes 0.001 and -0.001 both round to 0.00, but
  \<open>toFixed(2)\<close> prints \<open>0.00\<close> for the one and \<open>-0.00\<close> for the other: after a successful
  fetch for the first, a lookup for the second one second later sends a second request.
\<close>

theorem cache_as_stated_counterexample:
  "isMock (fst (getCurrentWeather provider_down (clock_at 0) no_key_service 19 73)) \<and>
   cache (snd (getCurrentWeather provider_down (clock_at 0) no_key_service 19 73))
     (cacheKey 19 73) = None \<and>
   requests (snd (getCurrentWeather provider_down (clock_at 1000)
     (snd (getCurrentWeather provider_down (clock_at 0) keyed_service 19 73)) 19 73)) = 2 \<and>
   toFixed2 0.001 = (False, 0) \<and> toFixed2 (- 0.001) = (True, 0) \<and>
   requests (snd (getCurrentWeather (provider_reports rain_90) (clock_at 1000)
     (snd (getCurrentWeather (provider_reports rain_90) (clock_at 0) keyed_service 0.001 73))
     (- 0.001) 73)) = 2"
proof -
  have first: "getCurrentWeather provider_down (clock_at 0) keyed_service 19 73 =
      (getMockWeatherData 0 19 73, keyed_service\<lparr> requests := Suc 0 \<rparr>)"
    by (simp add: getCurrentWeather_down provider_down_def)
      (simp add: clock_at_def keyed_service_def)
  have again: "getCurrentWeather provider_down (clock_at 1000)
      (keyed_service\<lparr> requests := Suc 0 \<rparr>) 19 73 =
      (getMockWeatherData 1000 19 73, keyed_service\<lparr> requests := Suc (Suc 0) \<rparr>)"
    by (simp add: getCurrentWeather_def provider_down_def fresh_entry_def
        key_not_configured_def keyed_service_def clock_at_def)
  have mock: "getCurrentWeather provider_down (clock_at 0) no_key_service 19 73 =
      (getMockWeatherData 0 19 73, no_key_service)"
    by (simp add: getCurrentWeather_no_key) (simp add: clock_at_def)
  have keys: "toFixed2 (1 / 1000) = (False, 0)" "toFixed2 (- (1 / 1000)) = (True, 0)"
    "toFixed2 73 = (False, 7300)"
    by (simp_all add: toFixed2_def)
  have north: "requests (snd (getCurrentWeather (provider_reports rain_90) (clock_at 0)
      keyed_service (1 / 1000) 73)) = 1"
    "cache (snd (getCurrentWeather (provider_reports rain_90) (clock_at 0)
      keyed_service (1 / 1000) 73)) ((True, 0), (False, 7300)) = None"
    "apiKey (snd (getCurrentWeather (provider_reports rain_90) (clock_at 0)
      keyed_service (1 / 1000) 73)) = Some ''k''"
    by (simp_all add: getCurrentWeather_def fresh_entry_def key_not_configured_def
        keyed_service_def provider_reports_def cacheKey_def keys Let_def)
  have south: "requests (snd (getCurrentWeather (provider_reports rain_90) (clock_at 1000) s
      (- (1 / 1000)) 73)) = Suc (requests s)"
    if "cache s ((True, 0), (False, 7300)) = None" and "apiKey s = Some ''k''" for s
    using that
    by (simp add: getCurrentWeather_def fresh_entry_def key_not_configured_def
        provider_reports_def cacheKey_def keys Let_def)
  show ?thesis
    using south [OF north(2) north(3)] north(1)
    by (simp add: first again mock keys) (simp add: getMockWeatherData_def Let_def no_key_service_def)
qed

text \<open>
  Claim C5, amended. A snapshot fetched from the provider is stored in the cache before it
  is returned, so that a second lookup whose latitude and longitude print under
  \<open>toFixed(2)\<close> to the same texts as those of the first (the same cache key), made within
  the TTL of one hour, returns that snapshot without a further request; a lookup that ends
  in a mock snapshot (no key configured, or the provider failed) leaves the cache as it was.
\<close>

theorem fetched_snapshot_is_cached:
  "(\<not> key_not_configured s \<and> fresh_entry clk s (cacheKey la lo) = None \<and>
      prov la lo = Some r \<and>
      cacheKey la' lo' = cacheKey la lo \<and> t_lookup clk' - t_store clk < CACHE_TTL
    \<longrightarrow>
      cache (snd (getCurrentWeather prov clk s la lo)) (cacheKey la lo) =
        Some \<lparr> data = fst (getCurrentWeather prov clk s la lo), stamp = t_store clk \<rparr> \<and>
      requests (snd (getCurrentWeather prov clk s la lo)) = Suc (requests s) \<and>
      getCurrentWeather prov' clk' (snd (getCurrentWeather prov clk s la lo)) la' lo' =
        getCurrentWeather prov clk s la lo) \<and>
   (key_not_configured s \<or> prov la lo = None
    \<longrightarrow> cache (snd (getCurrentWeather prov clk s la lo)) = cache s)"
proof (intro conjI impI)
  assume "key_not_configured s \<or> prov la lo = None"
  then show "cache (snd (getCurrentWeather prov clk s la lo)) = cache s"
    by (rule cache_unchanged_without_reply)
next
  assume a: "\<not> key_not_configured s \<and> fresh_entry clk s (cacheKey la lo) = None \<and>
      prov la lo = Some r \<and>
      cacheKey la' lo' = cacheKey la lo \<and> t_lookup clk' - t_store clk < CACHE_TTL"
  then have fetch: "getCurrentWeather prov clk s la lo =
     (\<lparr> temp = main_temp r, humidity = main_humidity r, condition = weather_main r,
        description = weather_description r, windSpeed = wind_speed r,
        timestamp = t_reply clk, isMock = False \<rparr>,
      s\<lparr> cache := (cache s)(cacheKey la lo \<mapsto>
              \<lparr> data = \<lparr> temp = main_temp r, humidity = main_humidity r,
                         condition = weather_main r, description = weather_description r,
                         windSpeed = wind_speed r, timestamp = t_reply clk, isMock = False \<rparr>,
                stamp = t_store clk \<rparr>),
         requests := Suc (requests s) \<rparr>)"
    using getCurrentWeather_fetch [of s clk la lo prov r] by simp
  show "cache (snd (getCurrentWeather prov clk s la lo)) (cacheKey la lo) =
        Some \<lparr> data = fst (getCurrentWeather prov clk s la lo), stamp = t_store clk \<rparr>"
    by (simp add: fetch)
  show "requests (snd (getCurrentWeather prov clk s la lo)) = Suc (requests s)"
    by (simp add: fetch)
  have "fresh_entry clk' (snd (getCurrentWeather prov clk s la lo)) (cacheKey la' lo') =
      Some (fst (getCurrentWeather prov clk s la lo))"
    using a by (simp add: fetch fresh_entry_def)
  then show "getCurrentWeather prov' clk' (snd (getCurrentWeather prov clk s la lo)) la' lo' =
        getCurrentWeather prov clk s la lo"
    by (simp add: getCurrentWeather_hit)
qed

theorem fetched_snapshot_is_cached_witness:
  "requests (snd (getCurrentWeather (provider_reports rain_90) (clock_at 0) keyed_service 19 73)) = 1 \<and>
   requests (snd (getCurrentWeather provider_down (clock_at 1000)
      (snd (getCurrentWeather (provider_reports rain_90) (clock_at 0) keyed_service 19 73))
      19.001 73.004)) = 1 \<and>
   cache (snd (getCurrentWeather provider_down (clock_at 0) keyed_service 19 73)) =
     cache keyed_service"
proof -
  have same_cell: "cacheKey 19.001 73.004 = cacheKey 19 73"
    by (simp add: cacheKey_def toFixed2_def)
  have pre: "\<not> key_not_configured keyed_service \<and>
      fresh_entry (clock_at 0) keyed_service (cacheKey 19 73) = None \<and>
      provider_reports rain_90 19 73 = Some rain_90 \<and>
      t_lookup (clock_at 1000) - t_store (clock_at 0) < CACHE_TTL"
    by (simp add: provider_reports_def) (simp add: clock_at_def CACHE_TTL_def)
  have down: "key_not_configured keyed_service \<or> provider_down 19 73 = None"
    by (simp add: provider_down_def)
  show ?thesis
    using fetched_snapshot_is_cached [where s = keyed_service and clk = "clock_at 0"
        and la = 19 and lo = 73 and prov = "provider_reports rain_90" and r = rain_90
        and la' = "19.001" and lo' = "73.004" and clk' = "clock_at 1000"
        and prov' = provider_down]
      fetched_snapshot_is_cached [where s = keyed_service and prov = provider_down
        and la = 19 and lo = 73 and clk = "clock_at 0"] pre down same_cell
    by (simp add: keyed_service_def)
qed

section \<open>Geolocation: outlier detection\<close>

lemma filter_by_index:
  "map fst (filter (\<lambda>(c, i). P (map f cs ! i)) (zip cs [0..<length cs])) =
     filter (\<lambda>c. P (f c)) cs"
proof (induction cs rule: rev_induct)
  case Nil
  then show ?case by simp
next
  case (snoc x xs)
  let ?Q = "\<lambda>(c, i). P (map f (xs @ [x]) ! i)"
  have split: "zip (xs @ [x]) [0..<length (xs @ [x])] = zip xs [0..<length xs] @ [(x, length xs)]"
    by simp
  have old: "filter ?Q (zip xs [0..<length xs]) =
      filter (\<lambda>(c, i). P (map f xs ! i)) (zip xs [0..<length xs])"
    by (rule filter_cong) (auto simp: nth_append dest: set_zip_rightD)
  have new: "filter ?Q [(x, length xs)] = (if P (f x) then [(x, length xs)] else [])"
    by (simp add: nth_append)
  have "map fst (filter ?Q (zip (xs @ [x]) [0..<length (xs @ [x])])) =
      map fst (filter ?Q (zip xs [0..<length xs])) @ map fst (filter ?Q [(x, length xs)])"
    unfolding split by (simp only: filter_append map_append)
  also have "\<dots> = filter (\<lambda>c. P (f c)) xs @ (if P (f x) then [x] else [])"
    unfolding old new using snoc.IH by simp
  also have "\<dots> = filter (\<lambda>c. P (f c)) (xs @ [x])"
    by simp
  finally show ?case .
qed

lemma avgDist_sum:
  "avgDist g coords ctr = sum_list (map (getDistance g ctr) coords) / real (length coords)"
  by (simp add: avgDist_def foldl_conv_fold fold_plus_sum_list_rev add.commute)

lemma detectOutliers_eq:
  "detectOutliers g coords ctr =
     (if avgDist g coords ctr < 10 then []
      else filter (\<lambda>c. getDistance g ctr c > avgDist g coords ctr * 3) coords)"
  using filter_by_index [of "\<lambda>d. d > avgDist g coords ctr * 3" "getDistance g ctr" coords]
  by (simp add: detectOutliers_def Let_def)

section \<open>Geolocation: the steps\<close>

lemma score_check_outliers:
  "g_score (check_outliers os r) = g_score r - 0.1 * real (length os)"
  by (simp add: check_outliers_def)

lemma details_check_outliers:
  "g_details (check_outliers os r) =
     g_details r @ (if os = [] then [] else [Detected_outliers (length os)])"
  by (simp add: check_outliers_def)

lemma score_check_user_after_outliers:
  "g_score (check_user g ctr ul (check_outliers os r)) =
     g_score (check_user g ctr ul r) - 0.1 * real (length os)"
  by (simp add: check_user_def check_outliers_def Let_def split: option.splits)

lemma outlier_lines_check_user:
  "filter (\<lambda>d. \<exists>k. d = Detected_outliers k) (g_details (check_user g ctr ul r)) =
     filter (\<lambda>d. \<exists>k. d = Detected_outliers k) (g_details r)"
  by (simp add: check_user_def Let_def split: option.splits)

lemma outlier_lines_check_outliers:
  "filter (\<lambda>d. \<exists>k. d = Detected_outliers k) (g_details (check_outliers os r)) =
     filter (\<lambda>d. \<exists>k. d = Detected_outliers k) (g_details r) @
       (if os = [] then [] else [Detected_outliers (length os)])"
  by (simp add: check_outliers_def)

lemma outlier_lines_check_spread:
  "filter (\<lambda>d. \<exists>k. d = Detected_outliers k)
     (g_details (check_spread spreadKm (initial_results ctr spreadKm))) = []"
  by (simp add: check_spread_def initial_results_def)

lemma check_user_skipped:
  assumes "\<not> truthy (lat u)"
  shows "check_user g ctr (Some u) r = check_user g ctr None r"
  using assms by (simp add: check_user_def)

lemma verifyCoordinates_valid:
  assumes "validCoords l \<noteq> []"
  shows "verifyCoordinates g (Some l) ul =
     (let valid = validCoords l;
          ctr = getCenter g valid;
          spreadKm = maxDist g ctr valid / 1000;
          r3 = check_user g ctr ul (check_outliers (detectOutliers g valid ctr)
                 (check_spread spreadKm (initial_results ctr spreadKm)))
      in r3\<lparr> g_score := max 0 (min 1 (g_score r3)) \<rparr>)"
proof -
  from assms have "l \<noteq> []"
    by (auto simp: validCoords_def)
  with assms show ?thesis
    by (simp add: verifyCoordinates_def Let_def)
qed

lemma validCoords_empty:
  assumes "\<forall>c \<in> set l. \<not> usable c"
  shows "validCoords l = []"
  using assms by (simp add: validCoords_def filter_empty_conv)

section \<open>Geolocation: the verification\<close>

text \<open>
  Claim C7. For every list of coordinates and every user location, whatever the library
  returns, the score of the geolocation verification lies between 0 and 1: the two early
  returns carry 0.5, and every other path ends in the clamp.
\<close>

theorem geo_score_in_unit_interval:
  "0 \<le> g_score (verifyCoordinates g coordinatesList userLocation) \<and>
   g_score (verifyCoordinates g coordinatesList userLocation) \<le> 1"
  by (simp add: verifyCoordinates_def no_coordinates_def no_valid_data_def Let_def
      split: option.splits)

text \<open>
  The two early returns: when the list of coordinates is absent or empty, or every entry of
  it is absent or fails the test \<open>!isNaN(c.lat) && !isNaN(c.lon)\<close>, the verification
  returns \<open>WARNING\<close> with score exactly 0.5 and one explanatory detail line.
\<close>

lemma no_usable_evidence:
  assumes "coordinatesList = None \<or>
     (\<exists>l. coordinatesList = Some l \<and>
        (\<forall>c \<in> set l. c = None \<or> (\<exists>p. c = Some p \<and> (isNaN (lat p) \<or> isNaN (lon p)))))"
  shows "g_status (verifyCoordinates g coordinatesList userLocation) = WARNING \<and>
         g_score (verifyCoordinates g coordinatesList userLocation) = 0.5 \<and>
         (g_details (verifyCoordinates g coordinatesList userLocation) = [No_image_coordinates] \<or>
          g_details (verifyCoordinates g coordinatesList userLocation) = [No_valid_GPS_data])"
proof (cases coordinatesList)
  case None
  then show ?thesis
    by (simp add: verifyCoordinates_def no_coordinates_def)
next
  case (Some l)
  with assms have "\<forall>c \<in> set l. \<not> usable c"
    by (auto simp: usable_def)
  then have "validCoords l = []"
    by (rule validCoords_empty)
  with Some show ?thesis
    by (simp add: verifyCoordinates_def no_coordinates_def no_valid_data_def)
qed

lemma maxDist_single:
  "maxDist g ctr [p] = (if getDistance g ctr p > 0 then getDistance g ctr p else 0)"
  by (simp add: maxDist_def Let_def)

lemma detectOutliers_single: "detectOutliers g [p] ctr = []"
  by (simp add: detectOutliers_eq avgDist_def)

lemma valid_null: "validCoords [Some null_point] = [null_point]"
  by (simp add: validCoords_def usable_def null_point_def)

text \<open>
  Claim C8 at the list that holds one photo whose latitude and longitude are \<open>null\<close>. The
  list contains only a point with missing coordinates, yet \<open>isNaN(null)\<close> is false, the
  point passes the filter and the early return is not taken: whatever the library returns,
  a centre is computed from the point, the score is not 0.5 and the detail is not the one
  of the early return.
\<close>

theorem null_coordinates_pass_the_filter:
  "validCoords [Some null_point] = [null_point] \<and>
   center (verifyCoordinates g (Some [Some null_point]) userLocation) =
     Some (getCenter g [null_point]) \<and>
   g_score (verifyCoordinates g (Some [Some null_point]) userLocation) \<noteq> 0.5 \<and>
   g_details (verifyCoordinates g (Some [Some null_point]) userLocation) \<noteq> [No_valid_GPS_data]"
proof -
  have some: "validCoords [Some null_point] \<noteq> []"
    by (simp add: valid_null)
  show ?thesis
    unfolding verifyCoordinates_valid [OF some] valid_null Let_def detectOutliers_single
    by (simp add: valid_null check_user_def check_outliers_def check_spread_def
        initial_results_def Let_def split: option.splits)
qed

text \<open>
  Claim C10. A user location whose \<open>lat\<close> is falsy (absent, \<open>null\<close>, \<open>NaN\<close>, \<open>false\<close>, or
  exactly 0) has the
  same effect as no user location at all: the whole result is the same, so there is no
  penalty, no change of status, no detail line and no \<open>dist_to_user_m\<close>.
\<close>

theorem falsy_user_latitude_skips_check:
  assumes "\<not> truthy (lat u)"
  shows "verifyCoordinates g coordinatesList (Some u) = verifyCoordinates g coordinatesList None"
  using assms
  by (simp add: verifyCoordinates_def Let_def check_user_skipped split: option.splits)

text \<open>
  Claim C9. Let \<open>avg\<close> be the mean distance of the valid points to the centre. If
  \<open>avg < 10\<close> no point is an outlier, the score is the clamped score of the other two steps
  and no outlier line is written. Otherwise the outliers are exactly the points farther
  than \<open>3 \<times> avg\<close> from the centre, each takes 0.1 off the score before the clamp, and the
  outlier lines among the details are a single line giving their number (none when there is
  no outlier).
\<close>

theorem outlier_rule:
  assumes some: "validCoords l \<noteq> []"
    and names: "valid = validCoords l" "ctr = getCenter g valid"
      "avg = avgDist g valid ctr" "outliers = detectOutliers g valid ctr"
      "spreadKm = maxDist g ctr valid / 1000"
      "base = check_user g ctr ul (check_spread spreadKm (initial_results ctr spreadKm))"
      "res = verifyCoordinates g (Some l) ul"
  shows "(avg < 10 \<longrightarrow>
            outliers = [] \<and> g_score res = max 0 (min 1 (g_score base)) \<and>
            filter (\<lambda>d. \<exists>k. d = Detected_outliers k) (g_details res) = []) \<and>
         (\<not> avg < 10 \<longrightarrow>
            outliers = filter (\<lambda>c. getDistance g ctr c > 3 * avg) valid \<and>
            g_score res = max 0 (min 1 (g_score base - 0.1 * real (length outliers))) \<and>
            filter (\<lambda>d. \<exists>k. d = Detected_outliers k) (g_details res) =
              (if outliers = [] then [] else [Detected_outliers (length outliers)]))"
proof -
  have res: "res = (check_user g ctr ul (check_outliers outliers
                      (check_spread spreadKm (initial_results ctr spreadKm))))
                   \<lparr> g_score := max 0 (min 1 (g_score base - 0.1 * real (length outliers))) \<rparr>"
    unfolding names
    by (simp add: verifyCoordinates_valid [OF some] Let_def score_check_user_after_outliers)
  have lines: "filter (\<lambda>d. \<exists>k. d = Detected_outliers k) (g_details res) =
      (if outliers = [] then [] else [Detected_outliers (length outliers)])"
    unfolding res
    by (simp add: outlier_lines_check_user outlier_lines_check_outliers
        outlier_lines_check_spread)
  have found: "outliers = (if avg < 10 then []
      else filter (\<lambda>c. getDistance g ctr c > 3 * avg) valid)"
    unfolding names by (simp add: detectOutliers_eq mult.commute)
  show ?thesis
  proof (rule conjI; rule impI)
    assume "avg < 10"
    with found have none: "outliers = []" by simp
    then show "outliers = [] \<and> g_score res = max 0 (min 1 (g_score base)) \<and>
            filter (\<lambda>d. \<exists>k. d = Detected_outliers k) (g_details res) = []"
      using lines by (simp add: res)
  next
    assume "\<not> avg < 10"
    with found have "outliers = filter (\<lambda>c. getDistance g ctr c > 3 * avg) valid" by simp
    then show "outliers = filter (\<lambda>c. getDistance g ctr c > 3 * avg) valid \<and>
            g_score res = max 0 (min 1 (g_score base - 0.1 * real (length outliers))) \<and>
            filter (\<lambda>d. \<exists>k. d = Detected_outliers k) (g_details res) =
              (if outliers = [] then [] else [Detected_outliers (length outliers)])"
      using lines res by simp
  qed
qed

lemma valid_tight:
  "validCoords tight_cluster =
     [\<lparr> lat = VNum (9 / 2), lon = VNum 0 \<rparr>, \<lparr> lat = VNum (9 / 2), lon = VNum 0 \<rparr>,
      \<lparr> lat = VNum (9 / 2), lon = VNum 0 \<rparr>, \<lparr> lat = VNum (13 / 2), lon = VNum 0 \<rparr>]"
  by (simp add: validCoords_def tight_cluster_def at_metres_def usable_def)

lemma valid_scattered:
  "validCoords scattered_cluster =
     [\<lparr> lat = VNum 0, lon = VNum 0 \<rparr>, \<lparr> lat = VNum 0, lon = VNum 0 \<rparr>,
      \<lparr> lat = VNum 0, lon = VNum 0 \<rparr>, \<lparr> lat = VNum 0, lon = VNum 0 \<rparr>,
      \<lparr> lat = VNum 0, lon = VNum 0 \<rparr>, \<lparr> lat = VNum 0, lon = VNum 0 \<rparr>,
      \<lparr> lat = VNum 0, lon = VNum 0 \<rparr>, \<lparr> lat = VNum 10000, lon = VNum 0 \<rparr>,
      \<lparr> lat = VNum 10000, lon = VNum 0 \<rparr>]"
  by (simp add: validCoords_def scattered_cluster_def at_metres_def usable_def)

lemma line_geolib_simps [simp]:
  "getCenter line_geolib coords = ()"
  "getDistance line_geolib ctr p = metres_from_origin p"
  by (simp_all add: line_geolib_def)

lemma avg_tight: "avgDist line_geolib (validCoords tight_cluster) () = 5"
  by (simp add: valid_tight avgDist_def metres_from_origin_def)

lemma avg_scattered: "avgDist line_geolib (validCoords scattered_cluster) () = 20000 / 9"
  by (simp add: valid_scattered avgDist_def metres_from_origin_def)

lemma max_tight: "maxDist line_geolib () (validCoords tight_cluster) = 13 / 2"
  by (simp add: valid_tight maxDist_def metres_from_origin_def)

lemma max_scattered: "maxDist line_geolib () (validCoords scattered_cluster) = 10000"
  by (simp add: valid_scattered maxDist_def metres_from_origin_def)

lemma valid_jitter:
  "validCoords jitter_cluster =
     [\<lparr> lat = VNum 0, lon = VNum 0 \<rparr>, \<lparr> lat = VNum 0, lon = VNum 0 \<rparr>,
      \<lparr> lat = VNum 0, lon = VNum 0 \<rparr>, \<lparr> lat = VNum 0, lon = VNum 0 \<rparr>,
      \<lparr> lat = VNum 20, lon = VNum 0 \<rparr>]"
  by (simp add: validCoords_def jitter_cluster_def at_metres_def usable_def)

lemma avg_jitter: "avgDist line_geolib (validCoords jitter_cluster) () = 4"
  by (simp add: valid_jitter avgDist_def metres_from_origin_def)

lemma beyond_jitter:
  "filter (\<lambda>c. getDistance line_geolib () c > 3 * 4) (validCoords jitter_cluster) =
     [\<lparr> lat = VNum 20, lon = VNum 0 \<rparr>]"
  by (simp add: valid_jitter metres_from_origin_def)

theorem outlier_rule_witness:
  "avgDist line_geolib (validCoords tight_cluster) () = 5 \<and>
   detectOutliers line_geolib (validCoords tight_cluster) () = [] \<and>
   g_score (verifyCoordinates line_geolib (Some tight_cluster) None) = 1 \<and>
   avgDist line_geolib (validCoords jitter_cluster) () = 4 \<and>
   filter (\<lambda>c. getDistance line_geolib () c > 3 * 4) (validCoords jitter_cluster) =
     [\<lparr> lat = VNum 20, lon = VNum 0 \<rparr>] \<and>
   detectOutliers line_geolib (validCoords jitter_cluster) () = [] \<and>
   length (detectOutliers line_geolib (validCoords scattered_cluster) ()) = 2 \<and>
   g_score (verifyCoordinates line_geolib (Some scattered_cluster) None) = 0.2 \<and>
   filter (\<lambda>d. \<exists>k. d = Detected_outliers k)
     (g_details (verifyCoordinates line_geolib (Some scattered_cluster) None)) =
     [Detected_outliers 2]"
proof -
  have t: "validCoords tight_cluster \<noteq> []"
    by (simp add: valid_tight)
  have j: "validCoords jitter_cluster \<noteq> []"
    by (simp add: valid_jitter)
  have s: "validCoords scattered_cluster \<noteq> []"
    by (simp add: valid_scattered)
  have base_t: "g_score (check_user line_geolib () None
      (check_spread (13 / 2000) (initial_results () (13 / 2000)))) = 1"
    by (simp add: check_user_def check_spread_def initial_results_def
        MAX_CLUSTER_SPREAD_KM_def WARNING_THRESHOLD_KM_def)
  have base_s: "g_score (check_user line_geolib () None
      (check_spread 10 (initial_results () 10))) = 0.4"
    by (simp add: check_user_def check_spread_def initial_results_def
        MAX_CLUSTER_SPREAD_KM_def WARNING_THRESHOLD_KM_def)
  have far: "filter (\<lambda>c. 20000 < metres_from_origin c * 3)
      (validCoords scattered_cluster) =
      [\<lparr> lat = VNum 10000, lon = VNum 0 \<rparr>, \<lparr> lat = VNum 10000, lon = VNum 0 \<rparr>]"
    by (simp add: valid_scattered metres_from_origin_def)
  note tight = outlier_rule [OF t refl refl refl refl refl refl refl,
      where g = line_geolib and ul = None]
  note jitter = outlier_rule [OF j refl refl refl refl refl refl refl,
      where g = line_geolib and ul = None]
  note scattered = outlier_rule [OF s refl refl refl refl refl refl refl,
      where g = line_geolib and ul = None]
  from tight have "detectOutliers line_geolib (validCoords tight_cluster) () = [] \<and>
      g_score (verifyCoordinates line_geolib (Some tight_cluster) None) = 1"
    by (simp add: avg_tight max_tight base_t)
  moreover from jitter have "detectOutliers line_geolib (validCoords jitter_cluster) () = []"
    by (simp add: avg_jitter)
  moreover from scattered
  have "length (detectOutliers line_geolib (validCoords scattered_cluster) ()) = 2 \<and>
      g_score (verifyCoordinates line_geolib (Some scattered_cluster) None) = 0.2 \<and>
      filter (\<lambda>d. \<exists>k. d = Detected_outliers k)
        (g_details (verifyCoordinates line_geolib (Some scattered_cluster) None)) =
        [Detected_outliers 2]"
    by (simp add: avg_scattered max_scattered base_s far)
  ultimately show ?thesis
    using beyond_jitter by (simp add: avg_tight avg_jitter)
qed

text \<open>
  Seven photos at the centre, two 10 km away and a user 20 km away: the penalties add up
  to 1.1, and the clamp returns 0.
\<close>

lemma penalties_clamped_at_zero:
  "g_score (verifyCoordinates line_geolib (Some scattered_cluster) (Some far_away)) = 0"
proof -
  have far: "filter (\<lambda>c. 20000 < metres_from_origin c * 3)
      (validCoords scattered_cluster) =
      [\<lparr> lat = VNum 10000, lon = VNum 0 \<rparr>, \<lparr> lat = VNum 10000, lon = VNum 0 \<rparr>]"
    by (simp add: valid_scattered metres_from_origin_def)
  have out: "detectOutliers line_geolib (validCoords scattered_cluster) () =
      [\<lparr> lat = VNum 10000, lon = VNum 0 \<rparr>, \<lparr> lat = VNum 10000, lon = VNum 0 \<rparr>]"
    by (simp add: detectOutliers_eq avg_scattered far)
  have "validCoords scattered_cluster \<noteq> []"
    by (simp add: valid_scattered)
  then show ?thesis
    by (simp add: verifyCoordinates_valid Let_def max_scattered out)
      (simp add: check_user_def check_outliers_def check_spread_def initial_results_def
        far_away_def metres_from_origin_def Let_def
        MAX_CLUSTER_SPREAD_KM_def WARNING_THRESHOLD_KM_def EXIF_USER_TOLERANCE_M_def)
qed

theorem geo_score_in_unit_interval_witness:
  "0 \<le> g_score (verifyCoordinates line_geolib (Some scattered_cluster) (Some far_away)) \<and>
   g_score (verifyCoordinates line_geolib (Some scattered_cluster) (Some far_away)) \<le> 1"
  by (rule geo_score_in_unit_interval)

lemma no_usable_evidence_examples:
  "g_score (verifyCoordinates line_geolib None None) = 0.5 \<and>
   g_status (verifyCoordinates line_geolib (Some []) (Some far_away)) = WARNING \<and>
   g_score (verifyCoordinates line_geolib
      (Some [None, Some \<lparr> lat = VNaN, lon = VNum 73 \<rparr>, Some \<lparr> lat = VNum 19, lon = VUndefined \<rparr>])
      None) = 0.5"
  using no_usable_evidence [of None line_geolib None]
    no_usable_evidence [of "Some []" line_geolib "Some far_away"]
    no_usable_evidence [of "Some [None, Some \<lparr> lat = VNaN, lon = VNum 73 \<rparr>,
        Some \<lparr> lat = VNum 19, lon = VUndefined \<rparr>]" line_geolib None]
  by simp

theorem null_coordinates_pass_the_filter_witness:
  "g_status (verifyCoordinates line_geolib (Some [Some null_point]) None) = PASS \<and>
   g_score (verifyCoordinates line_geolib (Some [Some null_point]) None) = 1 \<and>
   g_score (verifyCoordinates line_geolib (Some [Some null_point]) None) \<noteq> 0.5"
proof -
  have some: "validCoords [Some null_point] \<noteq> []"
    by (simp add: valid_null)
  have "g_status (verifyCoordinates line_geolib (Some [Some null_point]) None) = PASS \<and>
     g_score (verifyCoordinates line_geolib (Some [Some null_point]) None) = 1"
    unfolding verifyCoordinates_valid [OF some] valid_null Let_def detectOutliers_single
    by (simp add: maxDist_single check_user_def check_outliers_def check_spread_def
        initial_results_def metres_from_origin_def null_point_def
        MAX_CLUSTER_SPREAD_KM_def WARNING_THRESHOLD_KM_def)
  then show ?thesis
    using null_coordinates_pass_the_filter [of line_geolib None] by simp
qed

theorem falsy_user_latitude_skips_check_witness:
  "verifyCoordinates line_geolib (Some scattered_cluster) (Some on_equator) =
     verifyCoordinates line_geolib (Some scattered_cluster) None \<and>
   dist_to_user_m (verifyCoordinates line_geolib (Some scattered_cluster) (Some on_equator)) = None"
proof -
  have same: "verifyCoordinates line_geolib (Some scattered_cluster) (Some on_equator) =
     verifyCoordinates line_geolib (Some scattered_cluster) None"
    by (rule falsy_user_latitude_skips_check) (simp add: on_equator_def)
  have "validCoords scattered_cluster \<noteq> []"
    by (simp add: valid_scattered)
  then have "dist_to_user_m (verifyCoordinates line_geolib (Some scattered_cluster) None) = None"
    by (simp add: verifyCoordinates_valid Let_def check_user_def check_outliers_def
        check_spread_def initial_results_def)
  with same show ?thesis by simp
qed

end
